theory Spec2Isabelle
  imports Main "HOL-Library.Word" "HOL-Library.Signed_Division" "HOL-Library.Sublist"
begin

section \<open>DesktopOptions.cpp: persisted preferences of the desktop shell\<close>

text \<open>
  The development embeds \<^verbatim>\<open>src/cpp/desktop/DesktopOptions.cpp\<close>. The class
  \<^verbatim>\<open>Options\<close> keeps a \<^verbatim>\<open>QSettings\<close> object, a cached port number and a
  few paths; its member functions read and write the settings, probe the installed fonts
  and the file system. Everything the functions touch besides their arguments is made an
  explicit argument here: the members and the process state they change (record
  \<open>desktop\<close>), the build platform chosen by the preprocessor, the random draw, the
  font database and the file system.
\<close>

subsection \<open>Values\<close>

text \<open>
  A \<^verbatim>\<open>QString\<close> is represented by its UTF-8 text: \<^verbatim>\<open>fromUtf8\<close> and
  \<^verbatim>\<open>toUtf8\<close> are then the identity, and the operations the file uses
  (\<^verbatim>\<open>isEmpty\<close>, \<^verbatim>\<open>==\<close>, \<^verbatim>\<open>+\<close>) are those of the text. A \<^verbatim>\<open>double\<close>
  is its 64-bit pattern: the file stores and returns doubles and computes nothing with
  them. An \<^verbatim>\<open>int\<close> is a 32-bit word read as two's complement.
\<close>

type_synonym qstring = string
type_synonym double = "64 word"
type_synonym cint = "32 word"

definition double_1_0 :: double where
  "double_1_0 = 0x3FF0000000000000"

record qsize =
  width :: int
  height :: int

text \<open>\<^verbatim>\<open>QRect\<close> keeps its two corners; its width is \<open>x2 - x1 + 1\<close>.\<close>

record qrect =
  x1 :: int
  y1 :: int
  x2 :: int
  y2 :: int

definition boundedTo :: "qsize \<Rightarrow> qsize \<Rightarrow> qsize" where
  "boundedTo a b = \<lparr>width = min (width a) (width b), height = min (height a) (height b)\<rparr>"

text \<open>
  The build platform decides the preprocessor conditionals of the file: \<open>Windows\<close>
  is a build with \<^verbatim>\<open>_WIN32\<close>, \<open>MacOS\<close> one with \<^verbatim>\<open>__APPLE__\<close> and
  \<^verbatim>\<open>Q_OS_MAC\<close>, \<open>Linux\<close> one with \<^verbatim>\<open>Q_OS_LINUX\<close>, and \<open>OtherOS\<close>
  one with none of them.
\<close>

datatype platform = Windows | MacOS | Linux | OtherOS

subsection \<open>QVariant\<close>

text \<open>
  The variants the file stores. A conversion to the type the variant holds returns the
  held value, and an invalid variant converts to the default-constructed value of the
  target type (\<^verbatim>\<open>false\<close>, \<^verbatim>\<open>0.0\<close>, the empty string, the null rectangle, the
  empty list). Conversions between different types (parsing a string as a number,
  printing a double, ...) are the toolkit's; they are taken as a parameter \<open>qt_conv\<close>
  so that nothing proved depends on them.
\<close>

datatype qvariant =
  VInvalid
  | VBool bool
  | VDouble double
  | VString qstring
  | VStringList "qstring list"
  | VRect qrect

record qt_conv =
  cross_toBool :: "qvariant \<Rightarrow> bool"
  cross_toDouble :: "qvariant \<Rightarrow> double"
  cross_toString :: "qvariant \<Rightarrow> qstring"
  cross_toStringList :: "qvariant \<Rightarrow> qstring list"
  cross_toRect :: "qvariant \<Rightarrow> qrect"

fun toBool :: "qt_conv \<Rightarrow> qvariant \<Rightarrow> bool" where
  "toBool qt (VBool b) = b"
| "toBool qt VInvalid = False"
| "toBool qt v = cross_toBool qt v"

fun toDouble :: "qt_conv \<Rightarrow> qvariant \<Rightarrow> double" where
  "toDouble qt (VDouble d) = d"
| "toDouble qt VInvalid = 0"
| "toDouble qt v = cross_toDouble qt v"

fun toString :: "qt_conv \<Rightarrow> qvariant \<Rightarrow> qstring" where
  "toString qt (VString s) = s"
| "toString qt VInvalid = []"
| "toString qt v = cross_toString qt v"

fun toStringList :: "qt_conv \<Rightarrow> qvariant \<Rightarrow> qstring list" where
  "toStringList qt (VStringList l) = l"
| "toStringList qt VInvalid = []"
| "toStringList qt v = cross_toStringList qt v"

fun toRect :: "qt_conv \<Rightarrow> qvariant \<Rightarrow> qrect" where
  "toRect qt (VRect r) = r"
| "toRect qt VInvalid = \<lparr>x1 = 0, y1 = 0, x2 = - 1, y2 = - 1\<rparr>"
| "toRect qt v = cross_toRect qt v"

subsection \<open>QSettings\<close>

text \<open>
  The settings store is a map from keys to variants, one location without fallbacks.
  \<^verbatim>\<open>value(key, default)\<close> returns the stored variant or the default (an invalid
  variant when none is given), \<^verbatim>\<open>setValue\<close> stores under one key, and
  \<^verbatim>\<open>remove(key)\<close> removes, as the toolkit documents it, the setting \<^verbatim>\<open>key\<close>
  and any sub-settings of it, which are the keys that start with \<^verbatim>\<open>key/\<close>.
\<close>

type_synonym qsettings = "qstring \<rightharpoonup> qvariant"

definition settings_contains :: "qsettings \<Rightarrow> qstring \<Rightarrow> bool" where
  "settings_contains m k = (m k \<noteq> None)"

definition settings_value :: "qsettings \<Rightarrow> qstring \<Rightarrow> qvariant \<Rightarrow> qvariant" where
  "settings_value m k d = (case m k of None \<Rightarrow> d | Some v \<Rightarrow> v)"

definition settings_setValue :: "qsettings \<Rightarrow> qstring \<Rightarrow> qvariant \<Rightarrow> qsettings" where
  "settings_setValue m k v = m(k \<mapsto> v)"

definition sub_setting :: "qstring \<Rightarrow> qstring \<Rightarrow> bool" where
  "sub_setting k k' = prefix (k @ ''/'') k'"

definition settings_remove :: "qsettings \<Rightarrow> qstring \<Rightarrow> qsettings" where
  "settings_remove m k = (\<lambda>k'. if k' = k \<or> sub_setting k k' then None else m k')"

subsection \<open>Windows, fonts, numbers\<close>

text \<open>A main window, as far as the file uses it: its geometry.\<close>

record qmainwindow =
  geometry :: qrect

definition setGeometry :: "qrect \<Rightarrow> qmainwindow \<Rightarrow> qmainwindow" where
  "setGeometry r win = win\<lparr>geometry := r\<rparr>"

definition resize :: "qsize \<Rightarrow> qmainwindow \<Rightarrow> qmainwindow" where
  "resize sz win =
     win\<lparr>geometry := (geometry win)\<lparr>x2 := x1 (geometry win) + width sz - 1,
                                      y2 := y1 (geometry win) + height sz - 1\<rparr>\<rparr>"

text \<open>
  The font database answers two questions about a family name:
  \<^verbatim>\<open>QFont(name).exactMatch()\<close> and \<^verbatim>\<open>isFixedWidthFont(QFont(name))\<close> (the latter
  declared in \<^verbatim>\<open>DesktopUtils.hpp\<close>).
\<close>

record fontdb =
  exactMatch :: "qstring \<Rightarrow> bool"
  isFixedWidthFont :: "qstring \<Rightarrow> bool"

text \<open>\<^verbatim>\<open>QString::number(int)\<close>: the decimal digits, with a minus sign when negative.\<close>

definition digit_char :: "nat \<Rightarrow> char" where
  "digit_char d = ''0123456789'' ! d"

fun number_nat :: "nat \<Rightarrow> string" where
  "number_nat n =
     (if n < 10 then [digit_char n]
      else number_nat (n div 10) @ [digit_char (n mod 10)])"

declare number_nat.simps [simp del]

definition number_int :: "int \<Rightarrow> string" where
  "number_int i = (if i < 0 then CHR ''-'' # number_nat (nat (- i)) else number_nat (nat i))"

definition qstring_number :: "cint \<Rightarrow> qstring" where
  "qstring_number n = number_int (sint n)"

text \<open>
  \<^verbatim>\<open>std::abs\<close> on \<^verbatim>\<open>int\<close> negates a negative argument in 32 bits, so the most
  negative value comes back unchanged (the standard leaves that case undefined; this is
  what two's-complement negation computes). \<^verbatim>\<open>%\<close> truncates towards zero.
\<close>

definition std_abs :: "cint \<Rightarrow> cint" where
  "std_abs x = (if sint x < 0 then - x else x)"

definition cint_rem :: "cint \<Rightarrow> cint \<Rightarrow> cint" where
  "cint_rem a b = word_of_int (sint a smod sint b)"

subsection \<open>The state\<close>

text \<open>
  The members of \<^verbatim>\<open>Options\<close> that the modelled functions use (a member
  \<^verbatim>\<open>name_\<close> of the class is the field \<open>name_m\<close>), the zoom level of the
  \<^verbatim>\<open>desktopInfo()\<close> singleton and the process environment.
\<close>

record desktop =
  settings_m :: qsettings
  runDiagnostics_m :: bool
  portNumber_m :: qstring
  localPeer_m :: string
  desktopInfo_zoomLevel :: double
  environment :: "string \<rightharpoonup> string"

text \<open>
  Modelled from the spec: \<^verbatim>\<open>DesktopInfo::setZoomLevel\<close> (DesktopInfo.hpp) is not
  in the sources; it sets the zoom level of the desktop frame.
\<close>

definition desktopInfo_setZoomLevel :: "double \<Rightarrow> desktop \<Rightarrow> desktop" where
  "desktopInfo_setZoomLevel z s = s\<lparr>desktopInfo_zoomLevel := z\<rparr>"

definition system_setenv :: "string \<Rightarrow> string \<Rightarrow> desktop \<Rightarrow> desktop" where
  "system_setenv name v s = s\<lparr>environment := (environment s)(name \<mapsto> v)\<rparr>"

subsection \<open>Options: command line, window bounds\<close>

text \<open>
  \<^verbatim>\<open>initFromCommandLine\<close>: the arguments after the program name are compared
  with \<^verbatim>\<open>kRunDiagnosticsOption\<close> (a macro of DesktopOptions.hpp, a parameter
  here); then the zoom level is handed to the desktop frame.
\<close>

definition zoomLevel :: "qt_conv \<Rightarrow> desktop \<Rightarrow> double" where
  "zoomLevel qt s = toDouble qt (settings_value (settings_m s) ''view.zoomLevel'' (VDouble double_1_0))"

definition initFromCommandLine :: "qstring \<Rightarrow> qt_conv \<Rightarrow> qstring list \<Rightarrow> desktop \<Rightarrow> desktop" where
  "initFromCommandLine kRunDiagnosticsOption qt arguments s =
     (let s' = (if kRunDiagnosticsOption \<in> set (drop 1 arguments)
                then s\<lparr>runDiagnostics_m := True\<rparr> else s)
      in desktopInfo_setZoomLevel (zoomLevel qt s') s')"

text \<open>
  \<^verbatim>\<open>restoreMainWindowBounds\<close> takes the size of the available desktop geometry
  (\<^verbatim>\<open>QApplication::desktop()->availableGeometry().size()\<close>) as an argument and
  returns the window.
\<close>

definition restoreMainWindowBounds ::
    "qt_conv \<Rightarrow> qsize \<Rightarrow> desktop \<Rightarrow> qmainwindow \<Rightarrow> qmainwindow" where
  "restoreMainWindowBounds qt available s win =
     (let key = ''mainwindow/bounds'' in
      if settings_contains (settings_m s) key then
        (let bounds = toRect qt (settings_value (settings_m s) key VInvalid)
         in setGeometry bounds win)
      else
        (let size = boundedTo \<lparr>width = 1200, height = 900\<rparr> available in
         if width size > 800 \<and> height size > 500 then resize size win else win))"

definition saveMainWindowBounds :: "qmainwindow \<Rightarrow> desktop \<Rightarrow> desktop" where
  "saveMainWindowBounds win s =
     (let bounds = VRect (geometry win)
      in s\<lparr>settings_m := settings_setValue (settings_m s) ''mainwindow/bounds'' bounds\<rparr>)"

subsection \<open>Options: the port number\<close>

text \<open>
  \<^verbatim>\<open>portNumber\<close> is a const member that fills the mutable member
  \<^verbatim>\<open>portNumber_\<close> on demand, so it returns the string and the state. The argument
  \<open>random\<close> is what \<^verbatim>\<open>core::random::uniformRandomInteger<int>()\<close> returns
  (core/Random.hpp is not in the sources). On Windows the local peer is recomputed
  and exported as \<^verbatim>\<open>RS_LOCAL_PEER\<close>.
\<close>

definition portNumber :: "platform \<Rightarrow> cint \<Rightarrow> desktop \<Rightarrow> qstring \<times> desktop" where
  "portNumber pf random s =
     (if length (portNumber_m s) = 0 then
        (let base = std_abs random;
             s1 = s\<lparr>portNumber_m := qstring_number (cint_rem base 40000 + 8080)\<rparr>;
             s2 = (if pf = Windows then
                     (let localPeer = [CHR 0x5C, CHR 0x5C, CHR ''.'', CHR 0x5C] @ ''pipe''
                                        @ [CHR 0x5C] @ portNumber_m s1 @ ''-rsession'';
                          s1' = s1\<lparr>localPeer_m := localPeer\<rparr>
                      in system_setenv ''RS_LOCAL_PEER'' (localPeer_m s1') s1')
                   else s1)
         in (portNumber_m s2, s2))
      else (portNumber_m s, s))"

definition newPortNumber :: "platform \<Rightarrow> cint \<Rightarrow> desktop \<Rightarrow> qstring \<times> desktop" where
  "newPortNumber pf random s = portNumber pf random (s\<lparr>portNumber_m := []\<rparr>)"

definition localPeer :: "desktop \<Rightarrow> string" where
  "localPeer s = localPeer_m s"

subsection \<open>Options: rendering engine and fonts\<close>

definition desktopRenderingEngine :: "qt_conv \<Rightarrow> desktop \<Rightarrow> qstring" where
  "desktopRenderingEngine qt s =
     toString qt (settings_value (settings_m s) ''desktop.renderingEngine'' VInvalid)"

definition setDesktopRenderingEngine :: "qstring \<Rightarrow> desktop \<Rightarrow> desktop" where
  "setDesktopRenderingEngine engine s =
     s\<lparr>settings_m := settings_setValue (settings_m s) ''desktop.renderingEngine'' (VString engine)\<rparr>"

fun findFirstMatchingFont :: "fontdb \<Rightarrow> qstring list \<Rightarrow> qstring \<Rightarrow> bool \<Rightarrow> qstring" where
  "findFirstMatchingFont db [] defaultFont fixedWidthOnly = defaultFont"
| "findFirstMatchingFont db (f # fonts) defaultFont fixedWidthOnly =
     (if exactMatch db f \<and> (\<not> fixedWidthOnly \<or> isFixedWidthFont db f) then f
      else findFirstMatchingFont db fonts defaultFont fixedWidthOnly)"

text \<open>\<^verbatim>\<open>QStringLiteral("\"%1\"").arg(font)\<close>: the font between two double quotes.\<close>

definition quoted :: "qstring \<Rightarrow> qstring" where
  "quoted font = [CHR 0x22] @ font @ [CHR 0x22]"

definition proportionalFontList :: "platform \<Rightarrow> qstring list" where
  "proportionalFontList pf =
     (if pf = Windows then
        [''Segoe UI'', ''Verdana'', ''Lucida Sans'', ''DejaVu Sans'', ''Lucida Grande'',
         ''Helvetica'']
      else if pf = MacOS then
        [''Lucida Grande'', ''Lucida Sans'', ''DejaVu Sans'', ''Segoe UI'', ''Verdana'',
         ''Helvetica'']
      else
        [''Lucida Sans'', ''DejaVu Sans'', ''Lucida Grande'', ''Segoe UI'', ''Verdana'',
         ''Helvetica''])"

text \<open>
  The function-local static \<^verbatim>\<open>detectedFont\<close> is default-constructed and never
  assigned in the file, so it is the empty string at every call.
\<close>

definition proportionalFont :: "platform \<Rightarrow> qt_conv \<Rightarrow> fontdb \<Rightarrow> desktop \<Rightarrow> qstring" where
  "proportionalFont pf qt db s =
     (let detectedFont = [];
          font = toString qt (settings_value (settings_m s) ''font.proportional'' VInvalid)
      in if font \<noteq> [] then font
         else if detectedFont \<noteq> [] then detectedFont
         else
           (let fontList = proportionalFontList pf;
                sansSerif = ''sans-serif'';
                selectedFont = findFirstMatchingFont db fontList sansSerif False
            in if selectedFont = sansSerif then sansSerif else quoted selectedFont))"

definition setFixedWidthFont :: "qstring \<Rightarrow> desktop \<Rightarrow> desktop" where
  "setFixedWidthFont font s =
     (if font = [] then s\<lparr>settings_m := settings_remove (settings_m s) ''font.fixedWidth''\<rparr>
      else s\<lparr>settings_m := settings_setValue (settings_m s) ''font.fixedWidth'' (VString font)\<rparr>)"

definition fixedWidthFontList :: "platform \<Rightarrow> qstring list" where
  "fixedWidthFontList pf =
     (if pf = MacOS then [''Monaco'']
      else if pf = Linux then
        [''Ubuntu Mono'', ''Droid Sans Mono'', ''DejaVu Sans Mono'', ''Monospace'']
      else [''Lucida Console'', ''Consolas''])"

definition fixedWidthFont :: "platform \<Rightarrow> qt_conv \<Rightarrow> fontdb \<Rightarrow> desktop \<Rightarrow> qstring" where
  "fixedWidthFont pf qt db s =
     (let detectedFont = [];
          font = toString qt (settings_value (settings_m s) ''font.fixedWidth'' VInvalid)
      in if font \<noteq> [] then [CHR 0x22] @ font @ [CHR 0x22]
         else if detectedFont \<noteq> [] then detectedFont
         else
           (let fontList = fixedWidthFontList pf;
                monospace = ''monospace'';
                matchingFont = findFirstMatchingFont db fontList monospace True
            in if matchingFont = monospace then monospace else quoted matchingFont))"

subsection \<open>Options: scalar preferences\<close>

definition setZoomLevel :: "double \<Rightarrow> desktop \<Rightarrow> desktop" where
  "setZoomLevel z s =
     (let s1 = desktopInfo_setZoomLevel z s
      in s1\<lparr>settings_m := settings_setValue (settings_m s1) ''view.zoomLevel'' (VDouble z)\<rparr>)"

definition enableAccessibility :: "qt_conv \<Rightarrow> desktop \<Rightarrow> bool" where
  "enableAccessibility qt s =
     toBool qt (settings_value (settings_m s) ''view.accessibility'' (VBool False))"

definition setEnableAccessibility :: "bool \<Rightarrow> desktop \<Rightarrow> desktop" where
  "setEnableAccessibility enable s =
     s\<lparr>settings_m := settings_setValue (settings_m s) ''view.accessibility'' (VBool enable)\<rparr>"

definition clipboardMonitoring :: "qt_conv \<Rightarrow> desktop \<Rightarrow> bool" where
  "clipboardMonitoring qt s =
     toBool qt (settings_value (settings_m s) ''clipboard.monitoring'' (VBool True))"

definition setClipboardMonitoring :: "bool \<Rightarrow> desktop \<Rightarrow> desktop" where
  "setClipboardMonitoring monitoring s =
     s\<lparr>settings_m := settings_setValue (settings_m s) ''clipboard.monitoring'' (VBool monitoring)\<rparr>"

definition ignoreGpuBlacklist :: "qt_conv \<Rightarrow> desktop \<Rightarrow> bool" where
  "ignoreGpuBlacklist qt s =
     toBool qt (settings_value (settings_m s) ''general.ignoreGpuBlacklist'' (VBool False))"

definition setIgnoreGpuBlacklist :: "bool \<Rightarrow> desktop \<Rightarrow> desktop" where
  "setIgnoreGpuBlacklist ignore s =
     s\<lparr>settings_m := settings_setValue (settings_m s) ''general.ignoreGpuBlacklist'' (VBool ignore)\<rparr>"

definition disableGpuDriverBugWorkarounds :: "qt_conv \<Rightarrow> desktop \<Rightarrow> bool" where
  "disableGpuDriverBugWorkarounds qt s =
     toBool qt (settings_value (settings_m s) ''general.disableGpuDriverBugWorkarounds''
                  (VBool False))"

definition setDisableGpuDriverBugWorkarounds :: "bool \<Rightarrow> desktop \<Rightarrow> desktop" where
  "setDisableGpuDriverBugWorkarounds disable s =
     s\<lparr>settings_m := settings_setValue (settings_m s) ''general.disableGpuDriverBugWorkarounds''
                       (VBool disable)\<rparr>"

text \<open>
  \<^verbatim>\<open>rBinDir\<close> and \<^verbatim>\<open>setRBinDir\<close> exist in the Windows build only. A null
  \<^verbatim>\<open>QString\<close> and an empty one are both the empty text, so both branches of the
  conditional in \<^verbatim>\<open>rBinDir\<close> return the value read.
\<close>

definition rBinDir :: "qt_conv \<Rightarrow> desktop \<Rightarrow> qstring" where
  "rBinDir qt s = toString qt (settings_value (settings_m s) ''RBinDir'' VInvalid)"

definition setRBinDir :: "qstring \<Rightarrow> desktop \<Rightarrow> desktop" where
  "setRBinDir path s = s\<lparr>settings_m := settings_setValue (settings_m s) ''RBinDir'' (VString path)\<rparr>"

definition ignoredUpdateVersions :: "qt_conv \<Rightarrow> desktop \<Rightarrow> qstring list" where
  "ignoredUpdateVersions qt s =
     toStringList qt (settings_value (settings_m s) ''ignoredUpdateVersions'' (VStringList []))"

definition setIgnoredUpdateVersions :: "qstring list \<Rightarrow> desktop \<Rightarrow> desktop" where
  "setIgnoredUpdateVersions ignoredVersions s =
     s\<lparr>settings_m := settings_setValue (settings_m s) ''ignoredUpdateVersions''
                       (VStringList ignoredVersions)\<rparr>"

subsection \<open>Options: the scratch temporary directory\<close>

text \<open>
  Modelled from the spec: \<^verbatim>\<open>core::FilePath\<close> (core/FilePath.hpp) and
  \<^verbatim>\<open>core::Error\<close> are not in the sources. A path is its text, empty for the
  default-constructed \<^verbatim>\<open>FilePath()\<close>. The file system is the set of paths that
  exist, together with the answer to whether a directory can be created at a path.
  \<^verbatim>\<open>childPath\<close> appends a component, with a separator unless the directory
  already ends with one; \<^verbatim>\<open>ensureDirectory\<close> succeeds on an
  existing path and otherwise creates the directory or reports an error;
  \<^verbatim>\<open>removeIfExists\<close> removes an existing path with everything below it. A
  removal that fails part-way removes less and is not modelled.
\<close>

type_synonym filepath = string

datatype error = Success | Failure

record filesystem =
  existing :: "filepath set"
  creatable :: "filepath \<Rightarrow> bool"

definition path_empty :: "filepath \<Rightarrow> bool" where
  "path_empty p = (p = [])"

definition path_exists :: "filesystem \<Rightarrow> filepath \<Rightarrow> bool" where
  "path_exists fs p = (p \<in> existing fs)"

definition childPath :: "filepath \<Rightarrow> string \<Rightarrow> filepath" where
  "childPath dir name =
     (if dir \<noteq> [] \<and> last dir = CHR ''/'' then dir @ name else dir @ ''/'' @ name)"

definition ensureDirectory :: "filesystem \<Rightarrow> filepath \<Rightarrow> error \<times> filesystem" where
  "ensureDirectory fs p =
     (if path_exists fs p then (Success, fs)
      else if creatable fs p then (Success, fs\<lparr>existing := insert p (existing fs)\<rparr>)
      else (Failure, fs))"

definition at_or_below :: "filepath \<Rightarrow> filepath \<Rightarrow> bool" where
  "at_or_below p q = (q = p \<or> prefix (p @ ''/'') q)"

definition removeIfExists :: "filesystem \<Rightarrow> filepath \<Rightarrow> filesystem" where
  "removeIfExists fs p =
     (if path_exists fs p then fs\<lparr>existing := Set.filter (\<lambda>q. \<not> at_or_below p q) (existing fs)\<rparr>
      else fs)"

text \<open>
  \<^verbatim>\<open>scratchTempDir\<close> reads the global \<^verbatim>\<open>scratchPath\<close> (an argument here) and
  may create a directory, so it returns the path and the file system.
\<close>

definition scratchTempDir :: "filesystem \<Rightarrow> qstring \<Rightarrow> filepath \<Rightarrow> filepath \<times> filesystem" where
  "scratchTempDir fs scratchPath defaultPath =
     (let dir = scratchPath in
      if \<not> path_empty dir \<and> path_exists fs dir then
        (let dir' = childPath dir ''tmp'';
             (err, fs') = ensureDirectory fs dir'
         in if err = Success then (dir', fs') else (defaultPath, fs'))
      else (defaultPath, fs))"

definition cleanUpScratchTempDir :: "filesystem \<Rightarrow> qstring \<Rightarrow> filesystem" where
  "cleanUpScratchTempDir fs scratchPath =
     (let (temp, fs') = scratchTempDir fs scratchPath [] in
      if \<not> path_empty temp then removeIfExists fs' temp else fs')"

text \<open>
  The path accessors (\<^verbatim>\<open>scriptsPath\<close>, \<^verbatim>\<open>executablePath\<close>,
  \<^verbatim>\<open>supportingFilePath\<close>, \<^verbatim>\<open>resourcesPath\<close>, \<^verbatim>\<open>wwwDocsPath\<close>,
  \<^verbatim>\<open>urlopenerPath\<close>, \<^verbatim>\<open>rsinversePath\<close>) only combine paths and are left out.
\<close>

subsection \<open>Sample inputs\<close>

text \<open>
  Concrete inputs on which the theorems below are evaluated: toolkit conversions that
  return the default of the target type, a desktop with an empty settings store, one
  with stored preferences, one with a cached port number, two font databases and two
  file systems.
\<close>

definition qt0 :: qt_conv where
  "qt0 = \<lparr>cross_toBool = (\<lambda>v. False), cross_toDouble = (\<lambda>v. 0), cross_toString = (\<lambda>v. []),
          cross_toStringList = (\<lambda>v. []), cross_toRect = (\<lambda>v. \<lparr>x1 = 0, y1 = 0, x2 = - 1, y2 = - 1\<rparr>)\<rparr>"

definition fresh_desktop :: desktop where
  "fresh_desktop = \<lparr>settings_m = Map.empty, runDiagnostics_m = False, portNumber_m = [],
     localPeer_m = [], desktopInfo_zoomLevel = double_1_0, environment = Map.empty\<rparr>"

definition used_desktop :: desktop where
  "used_desktop = fresh_desktop\<lparr>settings_m :=
     [''view.zoomLevel'' \<mapsto> VDouble 0x4000000000000000,
      ''view.accessibility'' \<mapsto> VBool True,
      ''clipboard.monitoring'' \<mapsto> VBool False,
      ''font.proportional'' \<mapsto> VString ''Arial'',
      ''font.fixedWidth'' \<mapsto> VString ''Courier'',
      ''font.fixedWidth/size'' \<mapsto> VDouble double_1_0]\<rparr>"


definition linux_fonts :: fontdb where
  "linux_fonts = \<lparr>exactMatch = (\<lambda>f. f \<in> set [''DejaVu Sans'', ''Helvetica'', ''DejaVu Sans Mono'', ''Monospace'']),
                   isFixedWidthFont = (\<lambda>f. f \<in> set [''DejaVu Sans Mono'', ''Monospace''])\<rparr>"

definition no_fonts :: fontdb where
  "no_fonts = \<lparr>exactMatch = (\<lambda>f. False), isFixedWidthFont = (\<lambda>f. False)\<rparr>"

definition scratch_fs :: filesystem where
  "scratch_fs = \<lparr>existing = {''/scratch'', ''/scratch/'', ''/scratch/tmp'', ''/scratch/tmp/x'',
                              ''/tmp''},
                  creatable = (\<lambda>p. True)\<rparr>"

definition readonly_fs :: filesystem where
  "readonly_fs = \<lparr>existing = {''/scratch'', ''/tmp''}, creatable = (\<lambda>p. False)\<rparr>"

section \<open>Properties\<close>

subsection \<open>Port numbers\<close>

lemma sint_std_abs:
  assumes "sint r \<noteq> - (2 ^ 31)"
  shows "sint (std_abs (r::cint)) = \<bar>sint r\<bar>"
proof (cases "sint r < 0")
  case True
  have "- (2 ^ 31) \<le> sint r" "sint r < 2 ^ 31"
    using sint_ge [of r] sint_lt [of r] by simp_all
  moreover have "sint (- r) = signed_take_bit 31 (- sint r)"
    by (simp add: sint_word_ariths)
  ultimately have "sint (- r) = - sint r"
    using assms by (simp add: signed_take_bit_int_eq_self_iff)
  then show ?thesis using True by (simp add: std_abs_def)
next
  case False
  then show ?thesis by (simp add: std_abs_def)
qed

lemma port_value:
  assumes "sint r \<noteq> - (2 ^ 31)"
  shows "sint (cint_rem (std_abs r) 40000 + 8080) = \<bar>sint r\<bar> mod 40000 + 8080"
proof -
  let ?a = "\<bar>sint r\<bar>"
  have a: "sint (std_abs r) = ?a" using assms by (rule sint_std_abs)
  have m: "0 \<le> ?a mod 40000" "?a mod 40000 < 40000" by simp_all
  have "sint (std_abs r) smod sint (40000 :: cint) = ?a mod 40000"
    by (cases "sint r = 0") (simp_all add: a signed_modulo_int_def)
  then have "cint_rem (std_abs r) 40000 + 8080 = word_of_int (?a mod 40000 + 8080)"
    by (simp add: cint_rem_def)
  then have "sint (cint_rem (std_abs r) 40000 + 8080) = signed_take_bit 31 (?a mod 40000 + 8080)"
    by (simp add: sint_sbintrunc' del: of_int_add)
  also have "\<dots> = ?a mod 40000 + 8080"
    using m by (simp add: signed_take_bit_int_eq_self_iff)
  finally show ?thesis .
qed

lemma portNumber_generated:
  "portNumber_m s = [] \<Longrightarrow>
     fst (portNumber pf random s) = qstring_number (cint_rem (std_abs random) 40000 + 8080)"
  by (simp add: portNumber_def Let_def system_setenv_def)




lemma port_number_in_range:
  assumes "sint random \<noteq> - (2 ^ 31)"
  shows "\<exists>n. fst (newPortNumber pf random s) = number_int n \<and> 8080 \<le> n \<and> n \<le> 48079 \<and>
             n = \<bar>sint random\<bar> mod 40000 + 8080"
proof -
  have "fst (newPortNumber pf random s) = number_int (\<bar>sint random\<bar> mod 40000 + 8080)"
    using port_value [OF assms]
    by (simp add: newPortNumber_def portNumber_generated qstring_number_def)
  moreover have "0 \<le> \<bar>sint random\<bar> mod 40000" "\<bar>sint random\<bar> mod 40000 < 40000"
    by simp_all
  ultimately show ?thesis by simp
qed




text \<open>
  Claim C10 says that every generated port number is the decimal of an integer between
  8080 and 48079. The lemma \<open>port_number_in_range\<close> above shows it for every draw
  but one. At the draw \<open>- 2147483648\<close>, the least \<^verbatim>\<open>int\<close>, the absolute value
  is the draw itself, the remainder is negative and the port number is 4432.
\<close>

theorem port_number_below_range:
  "fst (newPortNumber pf (- 2147483648) s) = ''4432'' \<and>
   sint (- 2147483648 :: cint) = - 2147483648 \<and>
   number_int 4432 = ''4432''"
  by (simp add: newPortNumber_def portNumber_generated std_abs_def cint_rem_def
      qstring_number_def number_int_def signed_modulo_int_def number_nat.simps digit_char_def)

subsection \<open>Scalar preferences\<close>

text \<open>
  Claim C2: when its key is absent \<open>zoomLevel\<close> returns 1.0,
  \<open>enableAccessibility\<close> returns false and \<open>clipboardMonitoring\<close> returns true;
  when the key is present each returns the stored variant converted to its result type,
  which for a stored double (respectively boolean) is the stored value itself.
\<close>

theorem scalar_accessors:
  "(settings_m s ''view.zoomLevel'' = None \<longrightarrow> zoomLevel qt s = double_1_0) \<and>
   (settings_m s ''view.accessibility'' = None \<longrightarrow> enableAccessibility qt s = False) \<and>
   (settings_m s ''clipboard.monitoring'' = None \<longrightarrow> clipboardMonitoring qt s = True) \<and>
   (\<forall>v. settings_m s ''view.zoomLevel'' = Some v \<longrightarrow> zoomLevel qt s = toDouble qt v) \<and>
   (\<forall>v. settings_m s ''view.accessibility'' = Some v \<longrightarrow> enableAccessibility qt s = toBool qt v) \<and>
   (\<forall>v. settings_m s ''clipboard.monitoring'' = Some v \<longrightarrow> clipboardMonitoring qt s = toBool qt v) \<and>
   (\<forall>z. settings_m s ''view.zoomLevel'' = Some (VDouble z) \<longrightarrow> zoomLevel qt s = z) \<and>
   (\<forall>b. settings_m s ''view.accessibility'' = Some (VBool b) \<longrightarrow> enableAccessibility qt s = b) \<and>
   (\<forall>b. settings_m s ''clipboard.monitoring'' = Some (VBool b) \<longrightarrow> clipboardMonitoring qt s = b)"
  by (simp add: zoomLevel_def enableAccessibility_def clipboardMonitoring_def settings_value_def)

theorem scalar_accessors_witness:
  "settings_m fresh_desktop ''view.zoomLevel'' = None \<and>
   zoomLevel qt0 fresh_desktop = double_1_0 \<and>
   settings_m fresh_desktop ''view.accessibility'' = None \<and>
   enableAccessibility qt0 fresh_desktop = False \<and>
   settings_m fresh_desktop ''clipboard.monitoring'' = None \<and>
   clipboardMonitoring qt0 fresh_desktop = True \<and>
   settings_m used_desktop ''view.zoomLevel'' = Some (VDouble 0x4000000000000000) \<and>
   zoomLevel qt0 used_desktop = 0x4000000000000000 \<and>
   settings_m used_desktop ''view.accessibility'' = Some (VBool True) \<and>
   enableAccessibility qt0 used_desktop = True \<and>
   settings_m used_desktop ''clipboard.monitoring'' = Some (VBool False) \<and>
   clipboardMonitoring qt0 used_desktop = False"
  using scalar_accessors [of fresh_desktop qt0] scalar_accessors [of used_desktop qt0]
  by (simp add: fresh_desktop_def used_desktop_def)

text \<open>
  Claim C3: with their keys absent \<open>ignoreGpuBlacklist\<close> and
  \<open>disableGpuDriverBugWorkarounds\<close> return false, and after the setter has been
  called with \<open>b\<close> the getter returns \<open>b\<close>.
\<close>

theorem gpu_flags:
  "(settings_m s ''general.ignoreGpuBlacklist'' = None \<longrightarrow> ignoreGpuBlacklist qt s = False) \<and>
   (settings_m s ''general.disableGpuDriverBugWorkarounds'' = None \<longrightarrow>
      disableGpuDriverBugWorkarounds qt s = False) \<and>
   ignoreGpuBlacklist qt (setIgnoreGpuBlacklist b s) = b \<and>
   disableGpuDriverBugWorkarounds qt (setDisableGpuDriverBugWorkarounds b s) = b"
  by (simp add: ignoreGpuBlacklist_def disableGpuDriverBugWorkarounds_def
      setIgnoreGpuBlacklist_def setDisableGpuDriverBugWorkarounds_def
      settings_value_def settings_setValue_def)

theorem gpu_flags_witness:
  "settings_m fresh_desktop ''general.ignoreGpuBlacklist'' = None \<and>
   ignoreGpuBlacklist qt0 fresh_desktop = False \<and>
   settings_m fresh_desktop ''general.disableGpuDriverBugWorkarounds'' = None \<and>
   disableGpuDriverBugWorkarounds qt0 fresh_desktop = False \<and>
   ignoreGpuBlacklist qt0 (setIgnoreGpuBlacklist True fresh_desktop) = True \<and>
   disableGpuDriverBugWorkarounds qt0 (setDisableGpuDriverBugWorkarounds True fresh_desktop) = True"
  using gpu_flags [of fresh_desktop qt0 True]
  by (simp add: fresh_desktop_def)

text \<open>
  Claim C5: after \<open>setZoomLevel z\<close> the settings store holds \<open>z\<close> under
  \<^verbatim>\<open>view.zoomLevel\<close>, the zoom level of the desktop frame is \<open>z\<close>, and
  \<open>zoomLevel\<close> returns \<open>z\<close>.
\<close>

theorem zoom_level_persists:
  "settings_m (setZoomLevel z s) ''view.zoomLevel'' = Some (VDouble z) \<and>
   desktopInfo_zoomLevel (setZoomLevel z s) = z \<and>
   zoomLevel qt (setZoomLevel z s) = z"
  by (simp add: setZoomLevel_def zoomLevel_def desktopInfo_setZoomLevel_def
      settings_value_def settings_setValue_def Let_def)

subsection \<open>Window bounds\<close>

text \<open>
  Claim C4: after \<open>saveMainWindowBounds win\<close> the store holds the geometry of
  \<open>win\<close> under \<^verbatim>\<open>mainwindow/bounds\<close>, and \<open>restoreMainWindowBounds\<close> on any
  window takes the branch of the saved bounds: it sets the geometry of that window to
  exactly the saved rectangle, whatever the available desktop size.
\<close>

theorem window_bounds_roundtrip:
  "settings_m (saveMainWindowBounds win s) ''mainwindow/bounds'' = Some (VRect (geometry win)) \<and>
   settings_contains (settings_m (saveMainWindowBounds win s)) ''mainwindow/bounds'' \<and>
   restoreMainWindowBounds qt available (saveMainWindowBounds win s) win' =
     setGeometry (geometry win) win' \<and>
   geometry (restoreMainWindowBounds qt available (saveMainWindowBounds win s) win') = geometry win"
  by (simp add: saveMainWindowBounds_def restoreMainWindowBounds_def settings_contains_def
      settings_value_def settings_setValue_def setGeometry_def Let_def)

subsection \<open>What a setter writes\<close>

text \<open>
  Claim C7 says that every setter leaves every key other than its own as it was.
  \<open>setFixedWidthFont\<close> with the empty string calls \<^verbatim>\<open>remove\<close>, which removes
  the sub-settings of \<^verbatim>\<open>font.fixedWidth\<close> as well: a stored
  \<^verbatim>\<open>font.fixedWidth/size\<close> is gone after the call.
\<close>

theorem setters_frame_counterexample:
  "settings_m (setFixedWidthFont [] used_desktop) ''font.fixedWidth/size''
     \<noteq> settings_m used_desktop ''font.fixedWidth/size''"
  by (simp add: setFixedWidthFont_def settings_remove_def sub_setting_def used_desktop_def)

text \<open>
  Claim C7, amended: every setter that stores a value (\<open>setEnableAccessibility\<close>,
  \<open>setClipboardMonitoring\<close>, \<open>setIgnoreGpuBlacklist\<close>,
  \<open>setDisableGpuDriverBugWorkarounds\<close>, \<open>setDesktopRenderingEngine\<close>,
  \<open>setZoomLevel\<close>, \<open>setRBinDir\<close>, \<open>setIgnoredUpdateVersions\<close>,
  \<open>saveMainWindowBounds\<close>, and \<open>setFixedWidthFont\<close> with a non-empty font)
  leaves every key other than its own as it was; \<open>setFixedWidthFont\<close> with the empty
  string leaves every key as it was that is neither \<^verbatim>\<open>font.fixedWidth\<close> nor a
  sub-setting of it.
\<close>

theorem setters_frame:
  "(k \<noteq> ''view.accessibility'' \<longrightarrow>
      settings_m (setEnableAccessibility b s) k = settings_m s k) \<and>
   (k \<noteq> ''clipboard.monitoring'' \<longrightarrow>
      settings_m (setClipboardMonitoring b s) k = settings_m s k) \<and>
   (k \<noteq> ''general.ignoreGpuBlacklist'' \<longrightarrow>
      settings_m (setIgnoreGpuBlacklist b s) k = settings_m s k) \<and>
   (k \<noteq> ''general.disableGpuDriverBugWorkarounds'' \<longrightarrow>
      settings_m (setDisableGpuDriverBugWorkarounds b s) k = settings_m s k) \<and>
   (k \<noteq> ''desktop.renderingEngine'' \<longrightarrow>
      settings_m (setDesktopRenderingEngine engine s) k = settings_m s k) \<and>
   (k \<noteq> ''view.zoomLevel'' \<longrightarrow>
      settings_m (setZoomLevel z s) k = settings_m s k) \<and>
   (k \<noteq> ''RBinDir'' \<longrightarrow>
      settings_m (setRBinDir path s) k = settings_m s k) \<and>
   (k \<noteq> ''ignoredUpdateVersions'' \<longrightarrow>
      settings_m (setIgnoredUpdateVersions versions s) k = settings_m s k) \<and>
   (k \<noteq> ''mainwindow/bounds'' \<longrightarrow>
      settings_m (saveMainWindowBounds win s) k = settings_m s k) \<and>
   (k \<noteq> ''font.fixedWidth'' \<and> font \<noteq> [] \<longrightarrow>
      settings_m (setFixedWidthFont font s) k = settings_m s k) \<and>
   (k \<noteq> ''font.fixedWidth'' \<and> \<not> sub_setting ''font.fixedWidth'' k \<longrightarrow>
      settings_m (setFixedWidthFont [] s) k = settings_m s k)"
  by (simp add: setEnableAccessibility_def setClipboardMonitoring_def setIgnoreGpuBlacklist_def
      setDisableGpuDriverBugWorkarounds_def setDesktopRenderingEngine_def setZoomLevel_def
      setRBinDir_def setIgnoredUpdateVersions_def saveMainWindowBounds_def setFixedWidthFont_def
      desktopInfo_setZoomLevel_def settings_setValue_def settings_remove_def Let_def)

theorem setters_frame_witness:
  "''font.proportional'' \<noteq> ''font.fixedWidth'' \<and>
   \<not> sub_setting ''font.fixedWidth'' ''font.proportional'' \<and>
   settings_m used_desktop ''font.proportional'' = Some (VString ''Arial'') \<and>
   settings_m (setEnableAccessibility False used_desktop) ''font.proportional'' = Some (VString ''Arial'') \<and>
   settings_m (setClipboardMonitoring True used_desktop) ''font.proportional'' = Some (VString ''Arial'') \<and>
   settings_m (setIgnoreGpuBlacklist True used_desktop) ''font.proportional'' = Some (VString ''Arial'') \<and>
   settings_m (setDisableGpuDriverBugWorkarounds True used_desktop) ''font.proportional'' = Some (VString ''Arial'') \<and>
   settings_m (setDesktopRenderingEngine ''software'' used_desktop) ''font.proportional'' = Some (VString ''Arial'') \<and>
   settings_m (setZoomLevel 0 used_desktop) ''font.proportional'' = Some (VString ''Arial'') \<and>
   settings_m (setRBinDir ''C:/R/bin'' used_desktop) ''font.proportional'' = Some (VString ''Arial'') \<and>
   settings_m (setIgnoredUpdateVersions [''1.2''] used_desktop) ''font.proportional'' = Some (VString ''Arial'') \<and>
   settings_m (saveMainWindowBounds \<lparr>geometry = \<lparr>x1 = 0, y1 = 0, x2 = 9, y2 = 9\<rparr>\<rparr> used_desktop) ''font.proportional'' = Some (VString ''Arial'') \<and>
   settings_m (setFixedWidthFont ''Monaco'' used_desktop) ''font.proportional'' = Some (VString ''Arial'') \<and>
   settings_m (setFixedWidthFont [] used_desktop) ''font.proportional'' = Some (VString ''Arial'')"
  using setters_frame [of "''font.proportional''" False used_desktop "''software''" 0 "''C:/R/bin''"
      "[''1.2'']" "\<lparr>geometry = \<lparr>x1 = 0, y1 = 0, x2 = 9, y2 = 9\<rparr>\<rparr>" "''Monaco''"]
    setters_frame [of "''font.proportional''" True used_desktop]
  by (simp add: used_desktop_def sub_setting_def)

subsection \<open>Fonts\<close>

lemma findFirstMatchingFont_find:
  "findFirstMatchingFont db fonts d w =
     (case find (\<lambda>f. exactMatch db f \<and> (\<not> w \<or> isFixedWidthFont db f)) fonts of
        None \<Rightarrow> d | Some f \<Rightarrow> f)"
  by (induction fonts) auto

lemma proportionalFontList_not_generic: "''sans-serif'' \<notin> set (proportionalFontList pf)"
  by (simp add: proportionalFontList_def)

lemma find_in_set: "find P xs = Some x \<Longrightarrow> x \<in> set xs"
  by (induction xs) (auto split: if_splits)

text \<open>
  Claim C8: \<open>proportionalFont\<close> returns a non-empty stored
  \<^verbatim>\<open>font.proportional\<close> as it is; with no stored font, or an empty one, it
  returns the first font of the platform's candidate list that the font database matches
  exactly, between double quotes, and the unquoted \<^verbatim>\<open>sans-serif\<close> when no
  candidate matches. The last conjunct says the same of every store: the stored variant
  is read as a string, and the detection runs exactly when that string is empty.
\<close>

theorem proportionalFont_selection:
  "(\<forall>f. settings_m s ''font.proportional'' = Some (VString f) \<and> f \<noteq> [] \<longrightarrow>
        proportionalFont pf qt db s = f) \<and>
   (settings_m s ''font.proportional'' = None \<or>
    settings_m s ''font.proportional'' = Some (VString []) \<longrightarrow>
      proportionalFont pf qt db s =
        (case find (exactMatch db) (proportionalFontList pf) of
           Some c \<Rightarrow> [CHR 0x22] @ c @ [CHR 0x22]
         | None \<Rightarrow> ''sans-serif'')) \<and>
   proportionalFont pf qt db s =
     (let font = toString qt (settings_value (settings_m s) ''font.proportional'' VInvalid)
      in if font \<noteq> [] then font
         else (case find (exactMatch db) (proportionalFontList pf) of
                 Some c \<Rightarrow> [CHR 0x22] @ c @ [CHR 0x22]
               | None \<Rightarrow> ''sans-serif''))"
proof -
  have stored: "proportionalFont pf qt db s = f"
    if "settings_m s ''font.proportional'' = Some (VString f)" "f \<noteq> []" for f
    using that by (simp add: proportionalFont_def settings_value_def)
  have detect: "proportionalFont pf qt db s =
        (case find (exactMatch db) (proportionalFontList pf) of
           Some c \<Rightarrow> [CHR 0x22] @ c @ [CHR 0x22] | None \<Rightarrow> ''sans-serif'')"
    if e: "toString qt (settings_value (settings_m s) ''font.proportional'' VInvalid) = []"
  proof (cases "find (exactMatch db) (proportionalFontList pf)")
    case None
    then show ?thesis
      using e by (simp add: proportionalFont_def findFirstMatchingFont_find)
  next
    case (Some c)
    then have "c \<in> set (proportionalFontList pf)" by (rule find_in_set)
    then have "c \<noteq> ''sans-serif''" using proportionalFontList_not_generic by blast
    then show ?thesis
      using e Some by (simp add: proportionalFont_def findFirstMatchingFont_find quoted_def)
  qed
  have general: "proportionalFont pf qt db s =
     (let font = toString qt (settings_value (settings_m s) ''font.proportional'' VInvalid)
      in if font \<noteq> [] then font
         else (case find (exactMatch db) (proportionalFontList pf) of
                 Some c \<Rightarrow> [CHR 0x22] @ c @ [CHR 0x22]
               | None \<Rightarrow> ''sans-serif''))"
  proof (cases "toString qt (settings_value (settings_m s) ''font.proportional'' VInvalid) = []")
    case True
    then show ?thesis using detect by simp
  next
    case False
    then show ?thesis by (simp add: proportionalFont_def)
  qed
  have absent: "proportionalFont pf qt db s =
        (case find (exactMatch db) (proportionalFontList pf) of
           Some c \<Rightarrow> [CHR 0x22] @ c @ [CHR 0x22] | None \<Rightarrow> ''sans-serif'')"
    if "settings_m s ''font.proportional'' = None \<or>
        settings_m s ''font.proportional'' = Some (VString [])"
    using that detect by (auto simp: settings_value_def)
  show ?thesis
    using stored absent general by blast
qed

theorem proportionalFont_selection_witness:
  "settings_m used_desktop ''font.proportional'' = Some (VString ''Arial'') \<and>
   proportionalFont Linux qt0 linux_fonts used_desktop = ''Arial'' \<and>
   settings_m fresh_desktop ''font.proportional'' = None \<and>
   find (exactMatch linux_fonts) (proportionalFontList Linux) = Some ''DejaVu Sans'' \<and>
   find (exactMatch no_fonts) (proportionalFontList Linux) = None \<and>
   proportionalFont Linux qt0 linux_fonts fresh_desktop = [CHR 0x22] @ ''DejaVu Sans'' @ [CHR 0x22] \<and>
   proportionalFont Linux qt0 no_fonts fresh_desktop = ''sans-serif''"
  using proportionalFont_selection [of used_desktop Linux qt0 linux_fonts]
    proportionalFont_selection [of fresh_desktop Linux qt0 linux_fonts]
    proportionalFont_selection [of fresh_desktop Linux qt0 no_fonts]
  by (simp add: used_desktop_def fresh_desktop_def linux_fonts_def no_fonts_def proportionalFontList_def)

text \<open>
  Claim C9: for a non-empty font \<open>f\<close>, \<open>fixedWidthFont\<close> after
  \<open>setFixedWidthFont f\<close> returns \<open>f\<close> between double quotes, which is not
  \<open>f\<close>; \<open>setFixedWidthFont\<close> with the empty string removes the key
  \<^verbatim>\<open>font.fixedWidth\<close>, and the getter then returns what the detection among
  the platform's fixed-width candidates gives.
\<close>

theorem fixedWidthFont_roundtrip:
  "(f \<noteq> [] \<longrightarrow>
      fixedWidthFont pf qt db (setFixedWidthFont f s) = [CHR 0x22] @ f @ [CHR 0x22] \<and>
      fixedWidthFont pf qt db (setFixedWidthFont f s) \<noteq> f) \<and>
   settings_m (setFixedWidthFont [] s) ''font.fixedWidth'' = None \<and>
   fixedWidthFont pf qt db (setFixedWidthFont [] s) =
     (let matchingFont = findFirstMatchingFont db (fixedWidthFontList pf) ''monospace'' True
      in if matchingFont = ''monospace'' then ''monospace'' else quoted matchingFont)"
  by (simp add: fixedWidthFont_def setFixedWidthFont_def settings_value_def settings_setValue_def
      settings_remove_def Let_def)

theorem fixedWidthFont_roundtrip_witness:
  "''Courier'' \<noteq> [] \<and>
   fixedWidthFont Linux qt0 linux_fonts (setFixedWidthFont ''Courier'' fresh_desktop)
     = [CHR 0x22] @ ''Courier'' @ [CHR 0x22] \<and>
   fixedWidthFont Linux qt0 linux_fonts (setFixedWidthFont ''Courier'' fresh_desktop) \<noteq> ''Courier'' \<and>
   fixedWidthFont Linux qt0 linux_fonts (setFixedWidthFont [] used_desktop)
     = [CHR 0x22] @ ''DejaVu Sans Mono'' @ [CHR 0x22]"
  using fixedWidthFont_roundtrip [of "''Courier''" Linux qt0 linux_fonts fresh_desktop]
    fixedWidthFont_roundtrip [of "''Courier''" Linux qt0 linux_fonts used_desktop]
  by (simp add: linux_fonts_def fixedWidthFontList_def quoted_def)

subsection \<open>The scratch temporary directory\<close>

lemma childPath_not_empty: "childPath dir name \<noteq> []"
  by (simp add: childPath_def)

lemma ensureDirectory_existing:
  "existing (snd (ensureDirectory fs p)) = existing fs \<or>
   existing (snd (ensureDirectory fs p)) = insert p (existing fs)"
  by (simp add: ensureDirectory_def)

lemma ensureDirectory_creatable: "creatable (snd (ensureDirectory fs p)) = creatable fs"
  by (simp add: ensureDirectory_def)

lemma ensureDirectory_Failure:
  "fst (ensureDirectory fs p) \<noteq> Success \<Longrightarrow> snd (ensureDirectory fs p) = fs"
  by (simp add: ensureDirectory_def split: if_splits)

lemma ensureDirectory_Success:
  "fst (ensureDirectory fs p) = Success \<Longrightarrow> path_exists (snd (ensureDirectory fs p)) p"
  by (simp add: ensureDirectory_def path_exists_def split: if_splits)

lemma scratchTempDir_eq:
  "scratchTempDir fs sp d =
     (if sp \<noteq> [] \<and> path_exists fs sp \<and> fst (ensureDirectory fs (childPath sp ''tmp'')) = Success
      then (childPath sp ''tmp'', snd (ensureDirectory fs (childPath sp ''tmp'')))
      else (d, fs))"
  by (simp add: scratchTempDir_def path_empty_def Let_def case_prod_beta ensureDirectory_Failure)

lemma cleanUp_eq:
  "cleanUpScratchTempDir fs sp =
     (if sp \<noteq> [] \<and> path_exists fs sp \<and> fst (ensureDirectory fs (childPath sp ''tmp'')) = Success
      then removeIfExists (snd (ensureDirectory fs (childPath sp ''tmp''))) (childPath sp ''tmp'')
      else fs)"
  by (simp add: cleanUpScratchTempDir_def scratchTempDir_eq path_empty_def childPath_not_empty
      case_prod_beta)

lemma remove_ensured:
  assumes "fst (ensureDirectory fs p) = Success"
  shows "removeIfExists (snd (ensureDirectory fs p)) p =
           fs\<lparr>existing := Set.filter (\<lambda>q. \<not> at_or_below p q) (existing fs)\<rparr>"
proof -
  have self: "at_or_below p p" by (simp add: at_or_below_def)
  have "Set.filter (\<lambda>q. \<not> at_or_below p q) (existing (snd (ensureDirectory fs p)))
          = Set.filter (\<lambda>q. \<not> at_or_below p q) (existing fs)"
    using ensureDirectory_existing [of fs p] self by auto
  then show ?thesis
    using ensureDirectory_Success [OF assms]
    by (auto simp: removeIfExists_def ensureDirectory_def split: if_splits)
qed

lemma cleanUp_removes:
  "cleanUpScratchTempDir fs sp =
     (if sp \<noteq> [] \<and> path_exists fs sp \<and> fst (ensureDirectory fs (childPath sp ''tmp'')) = Success
      then fs\<lparr>existing := Set.filter (\<lambda>q. \<not> at_or_below (childPath sp ''tmp'') q) (existing fs)\<rparr>
      else fs)"
  by (simp add: cleanUp_eq remove_ensured)

text \<open>
  Claim C6: \<open>scratchTempDir\<close> returns the \<^verbatim>\<open>tmp\<close> child of the scratch path
  when the scratch path is non-empty, exists and the child can be ensured, and the
  default path in every other case. In the first case \<open>cleanUpScratchTempDir\<close>
  removes the \<^verbatim>\<open>tmp\<close> child with everything below it and nothing else: the file
  system afterwards is the one before without the paths at or below the child. In every
  other case, in particular when the scratch path is empty or does not exist, it
  removes nothing: the default it passes is the empty path, never another temporary
  directory.
\<close>

theorem scratchTempDir_cases:
  "fst (scratchTempDir fs scratchPath defaultPath) =
     (if scratchPath \<noteq> [] \<and> path_exists fs scratchPath \<and>
         fst (ensureDirectory fs (childPath scratchPath ''tmp'')) = Success
      then childPath scratchPath ''tmp'' else defaultPath) \<and>
   cleanUpScratchTempDir fs scratchPath =
     (if scratchPath \<noteq> [] \<and> path_exists fs scratchPath \<and>
         fst (ensureDirectory fs (childPath scratchPath ''tmp'')) = Success
      then fs\<lparr>existing :=
             Set.filter (\<lambda>q. \<not> at_or_below (childPath scratchPath ''tmp'') q) (existing fs)\<rparr>
      else fs) \<and>
   (scratchPath \<noteq> [] \<and> path_exists fs scratchPath \<and>
    fst (ensureDirectory fs (childPath scratchPath ''tmp'')) = Success \<longrightarrow>
      childPath scratchPath ''tmp'' \<notin> existing (cleanUpScratchTempDir fs scratchPath) \<and>
      (\<forall>q. at_or_below (childPath scratchPath ''tmp'') q \<longrightarrow>
           q \<notin> existing (cleanUpScratchTempDir fs scratchPath))) \<and>
   (\<forall>q. \<not> at_or_below (childPath scratchPath ''tmp'') q \<longrightarrow>
        (q \<in> existing (cleanUpScratchTempDir fs scratchPath) \<longleftrightarrow> q \<in> existing fs)) \<and>
   (scratchPath = [] \<or> \<not> path_exists fs scratchPath \<longrightarrow>
        cleanUpScratchTempDir fs scratchPath = fs)"
proof -
  have self: "at_or_below (childPath scratchPath ''tmp'') (childPath scratchPath ''tmp'')"
    by (simp add: at_or_below_def)
  show ?thesis
    using self by (simp add: scratchTempDir_eq cleanUp_removes)
qed

theorem scratchTempDir_cases_witness:
  "fst (scratchTempDir scratch_fs ''/scratch'' ''/tmp'') = ''/scratch/tmp'' \<and>
   fst (scratchTempDir scratch_fs ''/scratch/'' ''/tmp'') = ''/scratch/tmp'' \<and>
   fst (scratchTempDir readonly_fs ''/scratch'' ''/tmp'') = ''/tmp'' \<and>
   fst (scratchTempDir scratch_fs ''/nowhere'' ''/tmp'') = ''/tmp'' \<and>
   existing (cleanUpScratchTempDir scratch_fs ''/scratch'') = {''/scratch'', ''/scratch/'', ''/tmp''} \<and>
   ''/scratch/tmp'' \<in> existing scratch_fs \<and>
   ''/scratch/tmp'' \<notin> existing (cleanUpScratchTempDir scratch_fs ''/scratch'') \<and>
   at_or_below (childPath ''/scratch'' ''tmp'') ''/scratch/tmp/x'' \<and>
   ''/scratch/tmp/x'' \<in> existing scratch_fs \<and>
   ''/scratch/tmp/x'' \<notin> existing (cleanUpScratchTempDir scratch_fs ''/scratch'') \<and>
   \<not> at_or_below (childPath ''/scratch'' ''tmp'') ''/tmp'' \<and>
   ''/tmp'' \<in> existing scratch_fs \<and>
   ''/tmp'' \<in> existing (cleanUpScratchTempDir scratch_fs ''/scratch'') \<and>
   cleanUpScratchTempDir readonly_fs ''/scratch'' = readonly_fs \<and>
   \<not> path_exists scratch_fs ''/nowhere'' \<and>
   cleanUpScratchTempDir scratch_fs ''/nowhere'' = scratch_fs"
proof -
  have tmp: "childPath ''/scratch'' ''tmp'' = ''/scratch/tmp''"
    "childPath ''/scratch/'' ''tmp'' = ''/scratch/tmp''"
    by (simp_all add: childPath_def)
  have ex: "path_exists scratch_fs ''/scratch''" "path_exists scratch_fs ''/scratch/''"
    "path_exists readonly_fs ''/scratch''" "\<not> path_exists scratch_fs ''/nowhere''"
    "''/scratch/tmp'' \<in> existing scratch_fs" "''/scratch/tmp/x'' \<in> existing scratch_fs"
    "''/tmp'' \<in> existing scratch_fs"
    by (simp_all add: path_exists_def scratch_fs_def readonly_fs_def)
  have ens: "fst (ensureDirectory scratch_fs ''/scratch/tmp'') = Success"
    "fst (ensureDirectory readonly_fs ''/scratch/tmp'') = Failure"
    by (simp_all add: ensureDirectory_def path_exists_def scratch_fs_def readonly_fs_def)
  have rel: "at_or_below ''/scratch/tmp'' ''/scratch/tmp/x''" "\<not> at_or_below ''/scratch/tmp'' ''/tmp''"
    by (simp_all add: at_or_below_def)
  have left: "Set.filter (\<lambda>q. \<not> at_or_below ''/scratch/tmp'' q) (existing scratch_fs)
                = {''/scratch'', ''/scratch/'', ''/tmp''}"
    by (auto simp: at_or_below_def scratch_fs_def)
  note a = scratchTempDir_cases [of scratch_fs "''/scratch''" "''/tmp''"]
  note b = scratchTempDir_cases [of scratch_fs "''/scratch/''" "''/tmp''"]
  note c = scratchTempDir_cases [of readonly_fs "''/scratch''" "''/tmp''"]
  note d = scratchTempDir_cases [of scratch_fs "''/nowhere''" "''/tmp''"]
  have r1: "fst (scratchTempDir scratch_fs ''/scratch'' ''/tmp'') = ''/scratch/tmp''"
    using a [THEN conjunct1] by (simp add: tmp ex ens)
  have r2: "fst (scratchTempDir scratch_fs ''/scratch/'' ''/tmp'') = ''/scratch/tmp''"
    using b [THEN conjunct1] by (simp add: tmp ex ens)
  have r3: "fst (scratchTempDir readonly_fs ''/scratch'' ''/tmp'') = ''/tmp''"
    using c [THEN conjunct1] by (simp add: tmp ex ens)
  have r4: "fst (scratchTempDir scratch_fs ''/nowhere'' ''/tmp'') = ''/tmp''"
    using d [THEN conjunct1] by (simp add: ex)
  have "cleanUpScratchTempDir scratch_fs ''/scratch''
          = scratch_fs\<lparr>existing :=
              Set.filter (\<lambda>q. \<not> at_or_below ''/scratch/tmp'' q) (existing scratch_fs)\<rparr>"
    using a [THEN conjunct2, THEN conjunct1] by (simp add: tmp ex ens)
  then have "existing (cleanUpScratchTempDir scratch_fs ''/scratch'')
          = Set.filter (\<lambda>q. \<not> at_or_below ''/scratch/tmp'' q) (existing scratch_fs)"
    by simp
  then have r5: "existing (cleanUpScratchTempDir scratch_fs ''/scratch'')
          = {''/scratch'', ''/scratch/'', ''/tmp''}"
    by (simp only: left)
  have r6: "cleanUpScratchTempDir readonly_fs ''/scratch'' = readonly_fs"
    using c [THEN conjunct2, THEN conjunct1] by (simp add: tmp ex ens)
  have r7: "cleanUpScratchTempDir scratch_fs ''/nowhere'' = scratch_fs"
    using d [THEN conjunct2, THEN conjunct1] by (simp add: ex)
  show ?thesis
    by (simp add: r1 r2 r3 r4 r5 r6 r7 tmp ex rel)
qed

end
